theory Spec2Isabelle
  imports Main "HOL-Library.Sublist"
begin

section \<open>Data model (the interfaces of the types module)\<close>

text \<open>
  Every interface of the client is a record and every enum a datatype. Several
  interfaces share field names (\<open>id\<close>, \<open>name\<close>, \<open>success\<close>, \<open>message\<close>, \<open>error\<close>, ...),
  so each field carries a short prefix naming its interface: \<open>project_id\<close> is
  \<open>Project.id\<close>, \<open>ui_error\<close> is \<open>UIState.error\<close>. An optional field (\<open>f?: T\<close>) and a
  nullable value (\<open>T | null\<close>) are \<open>T option\<close>. A JavaScript string is a \<open>string\<close>, one
  \<open>char\<close> for each code unit, so that \<open>length\<close> is \<open>.length\<close>. Numbers that the client
  only stores or prints are \<open>nat\<close>.
\<close>

record user =
  user_id :: string
  user_email :: string
  user_username :: string
  user_createdAt :: string
  user_updatedAt :: string

record authResponse =
  auth_user :: user
  auth_token :: string

datatype shotType =
  EXTREME_WIDE | WIDE | MEDIUM_WIDE | MEDIUM | MEDIUM_CLOSE | CLOSE_UP
  | EXTREME_CLOSE_UP | INSERT | CUTAWAY | SHOT_OVER_SHOULDER | TWO_SHOT | MASTER_SHOT

datatype cameraAngle =
  EYE_LEVEL | HIGH_ANGLE | LOW_ANGLE | BIRD_EYE | WORM_EYE | DUTCH_ANGLE
  | ANGLE_OVER_SHOULDER | POINT_OF_VIEW

datatype timeOfDay = DAWN | MORNING | DAY | AFTERNOON | EVENING | NIGHT | LATE_NIGHT

record storyboardScene =
  scene_id :: string
  scene_sceneNumber :: nat
  scene_description :: string
  scene_shotType :: shotType
  scene_cameraAngle :: cameraAngle
  scene_duration :: nat
  scene_notes :: "string option"
  scene_characters :: "string list"
  scene_location :: string
  scene_timeOfDay :: timeOfDay
  scene_movement :: "string option"
  scene_dialogue :: "string option"

record project =
  project_id :: string
  project_name :: string
  project_description :: "string option"
  project_scriptContent :: string
  project_storyboardData :: "storyboardScene list option"
  project_createdAt :: string
  project_updatedAt :: string
  project_userId :: string

record createProjectRequest =
  create_name :: string
  create_description :: "string option"
  create_scriptContent :: "string option"

text \<open>
  \<open>Partial<CreateProjectRequest>\<close>, the type of the create form's field errors: every
  key may be missing.
\<close>

record createProjectErrors =
  err_name :: "string option"
  err_description :: "string option"
  err_scriptContent :: "string option"

record 'a apiResponse =
  resp_success :: bool
  resp_data :: "'a option"
  resp_message :: "string option"
  resp_error :: "string option"

record pagination =
  pag_page :: nat
  pag_limit :: nat
  pag_total :: nat
  pag_totalPages :: nat

record 'a paginatedResponse =
  pres_success :: bool
  pres_data :: "'a list"
  pres_pagination :: pagination

record conversionResponse =
  conv_success :: bool
  conv_storyboard :: "storyboardScene list"
  conv_processingTime :: nat

text \<open>\<open>AppError.details\<close> has type \<open>any\<close>: its type is a parameter.\<close>

record 'd appError =
  apperr_code :: string
  apperr_message :: string
  apperr_details :: "'d option"
  apperr_timestamp :: string

record 'd uiState =
  ui_isLoading :: bool
  ui_error :: "'d appError option"
  ui_success :: "string option"

datatype theme = Light | Dark

section \<open>The application state container (AppProvider)\<close>

text \<open>
  The provider holds six pieces of React state. Each mutator is a synchronous state
  transition: the model passes the container's committed state explicitly and returns it
  updated.
\<close>

record 'd appState =
  uiState :: "'d uiState"
  currentProject :: "project option"
  projects :: "project list"
  cacheEnabled :: bool
  theme :: theme
  uploadProgress :: nat

text \<open>
  \<open>message || undefined\<close> on a \<open>string | null\<close>: the empty string is falsy, so it
  becomes \<open>undefined\<close> as \<open>null\<close> does.
\<close>

definition truthy_string :: "string option \<Rightarrow> string option" where
  "truthy_string m = (case m of None \<Rightarrow> None | Some s \<Rightarrow> if s = [] then None else Some s)"

text \<open>The state the provider starts with (the theme is read from storage by the caller).\<close>

definition initial_uiState :: "'d uiState" where
  "initial_uiState = \<lparr>ui_isLoading = False, ui_error = None, ui_success = None\<rparr>"

definition setLoading :: "bool \<Rightarrow> 'd appState \<Rightarrow> 'd appState" where
  "setLoading loading s = s\<lparr>uiState := (uiState s)\<lparr>ui_isLoading := loading\<rparr>\<rparr>"

text \<open>
  \<open>error || undefined\<close>: an \<open>AppError\<close> is an object, truthy whenever it is not
  \<open>null\<close>.
\<close>

definition setError :: "'d appError option \<Rightarrow> 'd appState \<Rightarrow> 'd appState" where
  "setError error s = s\<lparr>uiState := (uiState s)\<lparr>ui_error := error, ui_success := None\<rparr>\<rparr>"

definition setSuccess :: "string option \<Rightarrow> 'd appState \<Rightarrow> 'd appState" where
  "setSuccess message s =
     s\<lparr>uiState := (uiState s)\<lparr>ui_success := truthy_string message, ui_error := None\<rparr>\<rparr>"

definition clearMessages :: "'d appState \<Rightarrow> 'd appState" where
  "clearMessages s = s\<lparr>uiState := (uiState s)\<lparr>ui_error := None, ui_success := None\<rparr>\<rparr>"

definition setCurrentProject :: "project option \<Rightarrow> 'd appState \<Rightarrow> 'd appState" where
  "setCurrentProject p s = s\<lparr>currentProject := p\<rparr>"

definition setProjects :: "project list \<Rightarrow> 'd appState \<Rightarrow> 'd appState" where
  "setProjects ps s = s\<lparr>projects := ps\<rparr>"

text \<open>
  \<open>currentProject?.id === x\<close>: with no current project the left side is \<open>undefined\<close>,
  which is never equal to a string.
\<close>

definition current_id_is :: "project option \<Rightarrow> string \<Rightarrow> bool" where
  "current_id_is cur x = (case cur of None \<Rightarrow> False | Some c \<Rightarrow> project_id c = x)"

text \<open>
  \<open>updateProject\<close> and \<open>removeProject\<close> are closures of one render of the provider.
  Their list update is a functional updater (\<open>setProjects(prev => ...)\<close>), which React
  applies to the latest committed list. Their test \<open>currentProject?.id === ...\<close> reads
  the \<open>currentProject\<close> of the render that built the closure, which a caller that
  kept the function across an \<open>await\<close> may hold after the committed value has changed.
  So the captured value is a parameter of its own (\<open>captured\<close>), next to the committed
  state the updates apply to; in a call from the current render it is
  \<open>currentProject s\<close>.
\<close>

definition updateProject :: "project option \<Rightarrow> project \<Rightarrow> 'd appState \<Rightarrow> 'd appState" where
  "updateProject captured updatedProject s =
     (let s1 = s\<lparr>projects :=
                   map (\<lambda>project. if project_id project = project_id updatedProject
                                   then updatedProject else project) (projects s)\<rparr>
      in if current_id_is captured (project_id updatedProject)
         then setCurrentProject (Some updatedProject) s1
         else s1)"

definition removeProject :: "project option \<Rightarrow> string \<Rightarrow> 'd appState \<Rightarrow> 'd appState" where
  "removeProject captured projectId s =
     (let s1 = s\<lparr>projects := filter (\<lambda>project. project_id project \<noteq> projectId) (projects s)\<rparr>
      in if current_id_is captured projectId
         then setCurrentProject None s1
         else s1)"

section \<open>The browser: durable storage, location, and the network\<close>

text \<open>
  \<open>localStorage\<close> is an ordered list of key/value pairs: \<open>Object.keys\<close> lists the
  keys, \<open>getItem\<close> finds the first entry of a key, \<open>removeItem\<close> deletes every entry
  of a key, \<open>setItem\<close> overwrites the entry of a key or appends one.
\<close>

type_synonym storage = "(string \<times> string) list"

definition getItem :: "string \<Rightarrow> storage \<Rightarrow> string option" where
  "getItem key st = map_of st key"

definition removeItem :: "string \<Rightarrow> storage \<Rightarrow> storage" where
  "removeItem key st = filter (\<lambda>entry. fst entry \<noteq> key) st"

definition setItem :: "string \<Rightarrow> string \<Rightarrow> storage \<Rightarrow> storage" where
  "setItem key v st =
     (if key \<in> set (map fst st)
      then map (\<lambda>entry. if fst entry = key then (key, v) else entry) st
      else st @ [(key, v)])"

definition storage_keys :: "storage \<Rightarrow> string list" where
  "storage_keys st = map fst st"

datatype http_method = GET | POST | PUT | DELETE

text \<open>
  A request as the remote sees it: method, path below the base URL, and the
  \<open>Authorization\<close> header. Request bodies are not modelled: no operation reads one back.
\<close>

record request =
  req_method :: http_method
  req_url :: string
  req_authorization :: "string option"

text \<open>
  What a \<open>catch\<close> clause can receive: a generic \<open>Error\<close> with its message, the HTTP
  client's error with \<open>error.response?.status\<close> and its message, or a value that is no
  \<open>Error\<close>.
\<close>

datatype thrown = Error string | AxiosError "nat option" string | NonError

text \<open>
  The remote's answer to one request is an input of the model: the HTTP client either
  resolves with the response body (a status in the 2xx range) or rejects.
\<close>

datatype 'b outcome = Resolved 'b | Rejected thrown

text \<open>
  The state outside the React tree: storage, the window's location, and the trace of the
  requests issued so far (the trace is ghost state, used to say that no call was made).
\<close>

record world =
  localStorage :: storage
  location_href :: string
  requests :: "request list"

text \<open>Template literals print numbers in decimal.\<close>

fun string_of_nat :: "nat \<Rightarrow> string" where
  "string_of_nat n =
     (if n < 10 then [char_of (48 + n)]
      else string_of_nat (n div 10) @ [char_of (48 + n mod 10)])"

declare string_of_nat.simps [simp del]

text \<open>
  \<open>String.prototype.trim\<close> strips white space from both ends; among the code units
  below 256 these are tab, line feed, vertical tab, form feed, carriage return, space
  and no-break space.
\<close>

definition is_whitespace :: "char \<Rightarrow> bool" where
  "is_whitespace c = (of_char c \<in> {9, 10, 11, 12, 13, 32, 160 :: nat})"

definition trim :: "string \<Rightarrow> string" where
  "trim s = rev (dropWhile is_whitespace (rev (dropWhile is_whitespace s)))"

section \<open>The resource client (ApiService)\<close>

definition getToken :: "world \<Rightarrow> string option" where
  "getToken w = getItem ''auth_token'' (localStorage w)"

definition setToken :: "string \<Rightarrow> world \<Rightarrow> world" where
  "setToken token w = w\<lparr>localStorage := setItem ''auth_token'' token (localStorage w)\<rparr>"

definition clearToken :: "world \<Rightarrow> world" where
  "clearToken w = w\<lparr>localStorage := removeItem ''auth_token'' (localStorage w)\<rparr>"

text \<open>
  The request interceptor: \<open>if (token)\<close> attaches the header; a missing or empty token
  attaches none.
\<close>

definition request_interceptor :: "world \<Rightarrow> request \<Rightarrow> request" where
  "request_interceptor w config =
     (case truthy_string (getToken w) of
        Some token \<Rightarrow> config\<lparr>req_authorization := Some (''Bearer '' @ token)\<rparr>
      | None \<Rightarrow> config)"

definition response_status :: "thrown \<Rightarrow> nat option" where
  "response_status e = (case e of AxiosError st _ \<Rightarrow> st | _ \<Rightarrow> None)"

text \<open>
  The response interceptor: a response passes; on an error with status 401 the token is
  cleared and the window is sent to \<open>/login\<close>; the error is rejected again in both
  cases.
\<close>

definition response_interceptor :: "'b outcome \<Rightarrow> world \<Rightarrow> 'b outcome \<times> world" where
  "response_interceptor r w =
     (case r of
        Resolved response \<Rightarrow> (Resolved response, w)
      | Rejected error \<Rightarrow>
          (Rejected error,
           if response_status error = Some 401
           then (clearToken w)\<lparr>location_href := ''/login''\<rparr>
           else w))"

text \<open>
  One call on the HTTP client instance (\<open>this.api.get\<close>, \<open>post\<close>, \<open>put\<close>, \<open>delete\<close>):
  the request passes the request interceptor and is sent, the remote's answer passes
  the response interceptor.
\<close>

definition api_send :: "http_method \<Rightarrow> string \<Rightarrow> 'b outcome \<Rightarrow> world \<Rightarrow> 'b outcome \<times> world" where
  "api_send m url remote w =
     (let config = request_interceptor w
                     \<lparr>req_method = m, req_url = url, req_authorization = None\<rparr>
      in response_interceptor remote (w\<lparr>requests := requests w @ [config]\<rparr>))"

text \<open>
  \<open>await\<close> on a call: a rejection leaves the operation as its failure, a response goes
  on to the rest of the operation.
\<close>

definition await :: "'b outcome \<times> world \<Rightarrow> ('b \<Rightarrow> world \<Rightarrow> (thrown + 'c) \<times> world)
    \<Rightarrow> (thrown + 'c) \<times> world" where
  "await p rest = (case p of (Rejected e, w) \<Rightarrow> (Inl e, w) | (Resolved x, w) \<Rightarrow> rest x w)"

text \<open>\<open>message || fallback\<close>: a missing or empty message gives the fallback.\<close>

definition or_default :: "string option \<Rightarrow> string \<Rightarrow> string" where
  "or_default message fallback =
     (case truthy_string message of Some m \<Rightarrow> m | None \<Rightarrow> fallback)"

text \<open>
  The three lines that eleven operations repeat:
  \<^verbatim>\<open>if (response.data.success && response.data.data) return response.data.data;
throw new Error(response.data.message || fallback);\<close>
  The payloads are objects or arrays, truthy whenever present.
\<close>

definition unwrap :: "string \<Rightarrow> 'a apiResponse \<Rightarrow> thrown + 'a" where
  "unwrap fallback body =
     (case (if resp_success body then resp_data body else None) of
        Some d \<Rightarrow> Inr d
      | None \<Rightarrow> Inl (Error (or_default (resp_message body) fallback)))"

text \<open>
  And the two lines of \<open>deleteProject\<close> and \<open>clearCache\<close>:
  \<^verbatim>\<open>if (!response.data.success) throw new Error(response.data.message || fallback);\<close>
\<close>

definition check_success :: "string \<Rightarrow> 'a apiResponse \<Rightarrow> thrown + unit" where
  "check_success fallback body =
     (if \<not> resp_success body then Inl (Error (or_default (resp_message body) fallback))
      else Inr ())"

definition api_login :: "authResponse apiResponse outcome \<Rightarrow> world
    \<Rightarrow> (thrown + authResponse) \<times> world" where
  "api_login remote w =
     await (api_send POST ''/auth/login'' remote w) (\<lambda>response w1.
       case unwrap ''Login failed'' response of
         Inr d \<Rightarrow> (Inr d, setToken (auth_token d) w1)
       | Inl e \<Rightarrow> (Inl e, w1))"

definition api_register :: "authResponse apiResponse outcome \<Rightarrow> world
    \<Rightarrow> (thrown + authResponse) \<times> world" where
  "api_register remote w =
     await (api_send POST ''/auth/register'' remote w) (\<lambda>response w1.
       case unwrap ''Registration failed'' response of
         Inr d \<Rightarrow> (Inr d, setToken (auth_token d) w1)
       | Inl e \<Rightarrow> (Inl e, w1))"

text \<open>\<open>try { await post } finally { clearToken }\<close>: a rejection is thrown on.\<close>

definition api_logout :: "'b outcome \<Rightarrow> world \<Rightarrow> (thrown + unit) \<times> world" where
  "api_logout remote w =
     (case api_send POST ''/auth/logout'' remote w of
        (Rejected e, w1) \<Rightarrow> (Inl e, clearToken w1)
      | (Resolved response, w1) \<Rightarrow> (Inr (), clearToken w1))"

definition api_getProfile :: "'a apiResponse outcome \<Rightarrow> world \<Rightarrow> (thrown + 'a) \<times> world" where
  "api_getProfile remote w =
     await (api_send GET ''/auth/profile'' remote w) (\<lambda>response w1.
       (unwrap ''Failed to get profile'' response, w1))"

text \<open>\<open>getProjects\<close> returns the body as it is.\<close>

definition api_getProjects :: "nat \<Rightarrow> nat \<Rightarrow> 'a paginatedResponse outcome \<Rightarrow> world
    \<Rightarrow> (thrown + 'a paginatedResponse) \<times> world" where
  "api_getProjects page limit remote w =
     await (api_send GET (''/projects?page='' @ string_of_nat page @ ''&limit=''
                           @ string_of_nat limit) remote w)
       (\<lambda>response w1. (Inr response, w1))"

definition api_getProject :: "string \<Rightarrow> 'a apiResponse outcome \<Rightarrow> world
    \<Rightarrow> (thrown + 'a) \<times> world" where
  "api_getProject ident remote w =
     await (api_send GET (''/projects/'' @ ident) remote w) (\<lambda>response w1.
       (unwrap ''Failed to get project'' response, w1))"

definition api_createProject :: "'a apiResponse outcome \<Rightarrow> world \<Rightarrow> (thrown + 'a) \<times> world" where
  "api_createProject remote w =
     await (api_send POST ''/projects'' remote w) (\<lambda>response w1.
       (unwrap ''Failed to create project'' response, w1))"

definition api_updateProject :: "string \<Rightarrow> 'a apiResponse outcome \<Rightarrow> world
    \<Rightarrow> (thrown + 'a) \<times> world" where
  "api_updateProject ident remote w =
     await (api_send PUT (''/projects/'' @ ident) remote w) (\<lambda>response w1.
       (unwrap ''Failed to update project'' response, w1))"

definition api_deleteProject :: "string \<Rightarrow> 'a apiResponse outcome \<Rightarrow> world
    \<Rightarrow> (thrown + unit) \<times> world" where
  "api_deleteProject ident remote w =
     await (api_send DELETE (''/projects/'' @ ident) remote w) (\<lambda>response w1.
       (check_success ''Failed to delete project'' response, w1))"

definition api_convertScript :: "string \<Rightarrow> 'a apiResponse outcome \<Rightarrow> world
    \<Rightarrow> (thrown + 'a) \<times> world" where
  "api_convertScript projectId remote w =
     await (api_send POST (''/projects/'' @ projectId @ ''/convert'') remote w)
       (\<lambda>response w1. (unwrap ''Failed to convert script'' response, w1))"

definition api_getStoryboard :: "string \<Rightarrow> 'a apiResponse outcome \<Rightarrow> world
    \<Rightarrow> (thrown + 'a) \<times> world" where
  "api_getStoryboard projectId remote w =
     await (api_send GET (''/projects/'' @ projectId @ ''/storyboard'') remote w)
       (\<lambda>response w1. (unwrap ''Failed to get storyboard'' response, w1))"

definition api_updateStoryboard :: "string \<Rightarrow> 'a apiResponse outcome \<Rightarrow> world
    \<Rightarrow> (thrown + 'a) \<times> world" where
  "api_updateStoryboard projectId remote w =
     await (api_send PUT (''/projects/'' @ projectId @ ''/storyboard'') remote w)
       (\<lambda>response w1. (unwrap ''Failed to update storyboard'' response, w1))"

definition api_uploadFile :: "'a apiResponse outcome \<Rightarrow> world \<Rightarrow> (thrown + 'a) \<times> world" where
  "api_uploadFile remote w =
     await (api_send POST ''/files/upload'' remote w) (\<lambda>response w1.
       (unwrap ''Failed to upload file'' response, w1))"

definition api_exportProject :: "string \<Rightarrow> 'a apiResponse outcome \<Rightarrow> world
    \<Rightarrow> (thrown + 'a) \<times> world" where
  "api_exportProject projectId remote w =
     await (api_send POST (''/projects/'' @ projectId @ ''/export'') remote w)
       (\<lambda>response w1. (unwrap ''Failed to export project'' response, w1))"

text \<open>
  \<open>projectId ? `/cache/project/${projectId}` : '/cache/clear'\<close>: a missing or empty
  id clears the whole remote cache.
\<close>

definition api_clearCache :: "string option \<Rightarrow> 'a apiResponse outcome \<Rightarrow> world
    \<Rightarrow> (thrown + unit) \<times> world" where
  "api_clearCache projectId remote w =
     (let endpoint = (case truthy_string projectId of
                        Some p \<Rightarrow> ''/cache/project/'' @ p
                      | None \<Rightarrow> ''/cache/clear'')
      in await (api_send DELETE endpoint remote w) (\<lambda>response w1.
           (check_success ''Failed to clear cache'' response, w1)))"

definition api_healthCheck :: "'b outcome \<Rightarrow> world \<Rightarrow> (thrown + 'b) \<times> world" where
  "api_healthCheck remote w =
     await (api_send GET ''/health'' remote w) (\<lambda>response w1. (Inr response, w1))"

section \<open>The container's cache operation\<close>

text \<open>
  \<open>clearCache\<close> of the provider works on storage, not on React state. Its guard
  \<open>typeof window !== 'undefined'\<close> holds in the browser, the only place where the
  provider (which reads \<open>localStorage\<close> when it is built) runs. The keys are listed
  first, then each key with the prefix is removed.
\<close>

definition clearCache :: "world \<Rightarrow> world" where
  "clearCache w =
     w\<lparr>localStorage :=
         fold (\<lambda>key st. if prefix ''cache_'' key then removeItem key st else st)
              (storage_keys (localStorage w)) (localStorage w)\<rparr>"

section \<open>Page views\<close>

text \<open>
  \<open>error instanceof Error ? error.message : fallback\<close>, as every \<open>catch\<close> clause of
  the pages computes the message it shows.
\<close>

definition caught_message :: "thrown \<Rightarrow> string \<Rightarrow> string" where
  "caught_message error fallback =
     (case error of Error m \<Rightarrow> m | AxiosError st m \<Rightarrow> m | NonError \<Rightarrow> fallback)"

subsection \<open>The dashboard's create-project flow\<close>

text \<open>
  The dashboard page: the container's state, the browser, and the page's own React
  state. \<open>new Date().toISOString()\<close> is an input (\<open>now\<close>), and so is the remote's
  answer to the one request the flow may issue.
\<close>

record 'd dashboard =
  dash_app :: "'d appState"
  dash_world :: world
  isCreateModalOpen :: bool
  isDeleteModalOpen :: bool
  selectedProject :: "project option"
  dropdownOpen :: "string option"
  createForm :: createProjectRequest
  createErrors :: createProjectErrors

text \<open>\<open>Object.keys(errors)\<close>: the keys that were assigned.\<close>

definition error_keys :: "createProjectErrors \<Rightarrow> string list" where
  "error_keys errors =
     (if err_name errors \<noteq> None then [''name''] else [])
     @ (if err_description errors \<noteq> None then [''description''] else [])
     @ (if err_scriptContent errors \<noteq> None then [''scriptContent''] else [])"

definition no_errors :: createProjectErrors where
  "no_errors = \<lparr>err_name = None, err_description = None, err_scriptContent = None\<rparr>"

definition validateCreateForm :: "'d dashboard \<Rightarrow> bool \<times> 'd dashboard" where
  "validateCreateForm s =
     (let errors0 = no_errors;
          errors1 =
            (if trim (create_name (createForm s)) = []
             then errors0\<lparr>err_name := Some ''Project name is required''\<rparr>
             else if length (create_name (createForm s)) < 3
             then errors0\<lparr>err_name := Some ''Project name must be at least 3 characters''\<rparr>
             else errors0);
          errors2 =
            (case truthy_string (create_description (createForm s)) of
               Some description \<Rightarrow>
                 if length description > 500
                 then errors1\<lparr>err_description :=
                                Some ''Description must be less than 500 characters''\<rparr>
                 else errors1
             | None \<Rightarrow> errors1)
      in (length (error_keys errors2) = 0, s\<lparr>createErrors := errors2\<rparr>))"

definition empty_form :: createProjectRequest where
  "empty_form = \<lparr>create_name = [], create_description = Some [],
                  create_scriptContent = Some []\<rparr>"

definition handleCreateProject :: "string \<Rightarrow> project apiResponse outcome \<Rightarrow> 'd dashboard
    \<Rightarrow> 'd dashboard" where
  "handleCreateProject now remote s =
     (case validateCreateForm s of
        (False, s1) \<Rightarrow> s1
      | (True, s1) \<Rightarrow>
          (let s2 = s1\<lparr>dash_app := setLoading True (dash_app s1)\<rparr>;
               (result, w1) = api_createProject remote (dash_world s2);
               s3 = s2\<lparr>dash_world := w1\<rparr>;
               s4 = (case result of
                       Inr newProject \<Rightarrow>
                         s3\<lparr>dash_app :=
                               setSuccess (Some ''Project created successfully!'')
                                 (setProjects (projects (dash_app s3) @ [newProject])
                                    (dash_app s3)),
                            isCreateModalOpen := False,
                            createForm := empty_form,
                            createErrors := no_errors\<rparr>
                     | Inl error \<Rightarrow>
                         s3\<lparr>dash_app :=
                               setError (Some \<lparr>apperr_code = ''CREATE_PROJECT_ERROR'',
                                   apperr_message =
                                     caught_message error ''Failed to create project'',
                                   apperr_details = None,
                                   apperr_timestamp = now\<rparr>) (dash_app s3)\<rparr>)
           in s4\<lparr>dash_app := setLoading False (dash_app s4)\<rparr>))"

subsection \<open>The editor's convert flow\<close>

text \<open>
  The editor page. Of its own React state the model keeps the script, the displayed
  storyboard and the two flags; the file-upload record and the conversion options only
  travel in request bodies.
\<close>

record 'd editor =
  ed_app :: "'d appState"
  ed_world :: world
  scriptContent :: string
  storyboard :: "storyboardScene list"
  isConverting :: bool
  isExportModalOpen :: bool

text \<open>
  The guard \<open>!currentProject || !scriptContent.trim()\<close> comes first; behind it the
  current project is there and its id goes into the request's path.
\<close>

definition handleConvertScript :: "string \<Rightarrow> conversionResponse apiResponse outcome
    \<Rightarrow> 'd editor \<Rightarrow> 'd editor" where
  "handleConvertScript now remote s =
     (case (if trim (scriptContent s) = [] then None else currentProject (ed_app s)) of
        None \<Rightarrow>
          s\<lparr>ed_app := setError (Some \<lparr>apperr_code = ''CONVERT_ERROR'',
                  apperr_message = ''Please enter a script before converting'',
                  apperr_details = None,
                  apperr_timestamp = now\<rparr>) (ed_app s)\<rparr>
      | Some cur \<Rightarrow>
          (let s1 = s\<lparr>isConverting := True\<rparr>;
               (result, w1) = api_convertScript (project_id cur) remote (ed_world s1);
               s2 = s1\<lparr>ed_world := w1\<rparr>;
               s3 = (case result of
                       Inr response \<Rightarrow>
                         (let s' = s2\<lparr>storyboard := conv_storyboard response\<rparr>
                          in s'\<lparr>ed_app :=
                                 setSuccess (Some (''Generated ''
                                     @ string_of_nat (length (conv_storyboard response))
                                     @ '' scenes in ''
                                     @ string_of_nat (conv_processingTime response)
                                     @ ''ms'')) (ed_app s')\<rparr>)
                     | Inl error \<Rightarrow>
                         s2\<lparr>ed_app :=
                               setError (Some \<lparr>apperr_code = ''CONVERT_ERROR'',
                                   apperr_message =
                                     caught_message error ''Failed to convert script'',
                                   apperr_details = None,
                                   apperr_timestamp = now\<rparr>) (ed_app s2)\<rparr>)
           in s3\<lparr>isConverting := False\<rparr>))"

subsection \<open>The flows that call the container after an await\<close>

text \<open>
  \<open>handleSaveProject\<close> of the editor and \<open>handleDeleteProject\<close> of the dashboard call
  \<open>updateProject\<close> and \<open>removeProject\<close> after their request has been answered, with
  the functions they took from the container at the render of the click. What other
  events do to the container while the request is in flight is an input (\<open>during\<close>);
  the closure still tests the \<open>currentProject\<close> of the click.
\<close>

definition handleSaveProject :: "string \<Rightarrow> project apiResponse outcome
    \<Rightarrow> ('d appState \<Rightarrow> 'd appState) \<Rightarrow> 'd editor \<Rightarrow> 'd editor" where
  "handleSaveProject now remote during s =
     (case currentProject (ed_app s) of
        None \<Rightarrow> s
      | Some cur \<Rightarrow>
          (let s1 = s\<lparr>ed_app := setLoading True (ed_app s)\<rparr>;
               (result, w1) = api_updateProject (project_id cur) remote (ed_world s1);
               s2 = s1\<lparr>ed_world := w1, ed_app := during (ed_app s1)\<rparr>;
               s3 = (case result of
                       Inr updatedProject \<Rightarrow>
                         s2\<lparr>ed_app :=
                               setSuccess (Some ''Project saved successfully!'')
                                 (updateProject (currentProject (ed_app s)) updatedProject
                                    (ed_app s2))\<rparr>
                     | Inl error \<Rightarrow>
                         s2\<lparr>ed_app :=
                               setError (Some \<lparr>apperr_code = ''SAVE_PROJECT_ERROR'',
                                   apperr_message =
                                     caught_message error ''Failed to save project'',
                                   apperr_details = None,
                                   apperr_timestamp = now\<rparr>) (ed_app s2)\<rparr>)
           in s3\<lparr>ed_app := setLoading False (ed_app s3)\<rparr>))"

definition handleDeleteProject :: "string \<Rightarrow> unit apiResponse outcome
    \<Rightarrow> ('d appState \<Rightarrow> 'd appState) \<Rightarrow> 'd dashboard \<Rightarrow> 'd dashboard" where
  "handleDeleteProject now remote during s =
     (case selectedProject s of
        None \<Rightarrow> s
      | Some selected \<Rightarrow>
          (let s1 = s\<lparr>dash_app := setLoading True (dash_app s)\<rparr>;
               (result, w1) = api_deleteProject (project_id selected) remote (dash_world s1);
               s2 = s1\<lparr>dash_world := w1, dash_app := during (dash_app s1)\<rparr>;
               s3 = (case result of
                       Inr finished \<Rightarrow>
                         s2\<lparr>dash_app :=
                               setSuccess (Some ''Project deleted successfully!'')
                                 (removeProject (currentProject (dash_app s))
                                    (project_id selected) (dash_app s2)),
                            isDeleteModalOpen := False,
                            selectedProject := None\<rparr>
                     | Inl error \<Rightarrow>
                         s2\<lparr>dash_app :=
                               setError (Some \<lparr>apperr_code = ''DELETE_PROJECT_ERROR'',
                                   apperr_message =
                                     caught_message error ''Failed to delete project'',
                                   apperr_details = None,
                                   apperr_timestamp = now\<rparr>) (dash_app s2)\<rparr>)
           in s3\<lparr>dash_app := setLoading False (dash_app s3)\<rparr>))"

section \<open>The session store\<close>

record session =
  sess_user :: "user option"
  sess_isLoading :: bool

text \<open>
  Modelled from the spec: the session store (\<open>contexts/AuthContext.tsx\<close>) is imported by
  the pages but is not among the sources. The spec gives \<open>isAuthenticated\<close> as "derived
  from presence of identity".
\<close>

definition isAuthenticated :: "session \<Rightarrow> bool" where
  "isAuthenticated s = (sess_user s \<noteq> None)"

text \<open>
  Modelled from the spec: the session store's start-up (\<open>contexts/AuthContext.tsx\<close>, not
  among the sources), "on process start, the store attempts to restore a session from a
  persisted token and an optional profile fetch; if restoration fails, state is reset to
  unauthenticated with no error surfaced". The profile fetch is the resource client's
  \<open>getProfile\<close>; without a persisted token there is nothing to restore. Assigning
  \<open>window.location.href\<close> loads the page anew, so this is what runs after the forced
  navigation.
\<close>

definition restoreSession :: "user apiResponse outcome \<Rightarrow> world \<Rightarrow> session \<times> world" where
  "restoreSession remote w =
     (case getToken w of
        None \<Rightarrow> (\<lparr>sess_user = None, sess_isLoading = False\<rparr>, w)
      | Some token \<Rightarrow>
          (case api_getProfile remote w of
             (Inr u, w1) \<Rightarrow> (\<lparr>sess_user = Some u, sess_isLoading = False\<rparr>, w1)
           | (Inl e, w1) \<Rightarrow> (\<lparr>sess_user = None, sess_isLoading = False\<rparr>, w1)))"

section \<open>Vocabulary of the properties and sample states\<close>

text \<open>
  The message slots' mutators as a datatype, so that a sequence of calls is a list.
\<close>

datatype 'd message_call =
  SetError "'d appError option" | SetSuccess "string option" | ClearMessages

fun apply_call :: "'d message_call \<Rightarrow> 'd appState \<Rightarrow> 'd appState" where
  "apply_call (SetError e) s = setError e s"
| "apply_call (SetSuccess m) s = setSuccess m s"
| "apply_call ClearMessages s = clearMessages s"

definition apply_calls :: "'d message_call list \<Rightarrow> 'd appState \<Rightarrow> 'd appState" where
  "apply_calls cs s = fold apply_call cs s"

definition both_set :: "'d appState \<Rightarrow> bool" where
  "both_set s = (ui_error (uiState s) \<noteq> None \<and> ui_success (uiState s) \<noteq> None)"

text \<open>
  The message of the failure on an unsuccessful envelope: the envelope's message when
  it is present and not empty, the operation's own default otherwise.
\<close>

definition failure_message :: "string option \<Rightarrow> string \<Rightarrow> string" where
  "failure_message message fallback =
     (case message of
        None \<Rightarrow> fallback
      | Some m \<Rightarrow> if m = [] then fallback else m)"

text \<open>
  A session is terminated in a browser state when no token is stored, the window is at
  the login page, and the session store comes up unauthenticated there, whatever the
  remote would answer to a profile fetch.
\<close>

definition session_terminated :: "user apiResponse outcome \<Rightarrow> world \<Rightarrow> bool" where
  "session_terminated profile w =
     (getToken w = None \<and> location_href w = ''/login''
      \<and> \<not> isAuthenticated (fst (restoreSession profile w)))"

definition sample_project :: "string \<Rightarrow> string \<Rightarrow> project" where
  "sample_project ident name =
     \<lparr>project_id = ident, project_name = name, project_description = None,
      project_scriptContent = ''INT. ROOM - DAY'', project_storyboardData = None,
      project_createdAt = ''2024-01-01'', project_updatedAt = ''2024-01-02'',
      project_userId = ''u1''\<rparr>"

definition sample_app :: "unit appState" where
  "sample_app =
     \<lparr>uiState = initial_uiState,
      currentProject = Some (sample_project ''p2'' ''Two''),
      projects = [sample_project ''p1'' ''One'', sample_project ''p2'' ''Two'',
                  sample_project ''p3'' ''Three''],
      cacheEnabled = True, theme = Light, uploadProgress = 0\<rparr>"

definition sample_world :: world where
  "sample_world =
     \<lparr>localStorage = [(''auth_token'', ''tok''), (''cache_projects'', ''[]''),
                      (''theme'', ''dark''), (''cache_p1'', ''x'')],
      location_href = ''/dashboard'', requests = []\<rparr>"

definition sample_user :: user where
  "sample_user =
     \<lparr>user_id = ''u1'', user_email = ''a@b.c'', user_username = ''ann'',
      user_createdAt = ''2024-01-01'', user_updatedAt = ''2024-01-01''\<rparr>"

definition sample_error :: "unit appError" where
  "sample_error =
     \<lparr>apperr_code = ''LOAD_PROJECTS_ERROR'', apperr_message = ''Network Error'',
      apperr_details = None, apperr_timestamp = ''2024-01-03T00:00:00.000Z''\<rparr>"

definition unauthorized :: thrown where
  "unauthorized = AxiosError (Some 401) ''Request failed with status code 401''"

definition sample_scene :: "nat \<Rightarrow> storyboardScene" where
  "sample_scene n =
     \<lparr>scene_id = ''s'' @ string_of_nat n, scene_sceneNumber = n,
      scene_description = ''A room'', scene_shotType = WIDE,
      scene_cameraAngle = EYE_LEVEL, scene_duration = 5, scene_notes = None,
      scene_characters = [], scene_location = ''ROOM'', scene_timeOfDay = DAY,
      scene_movement = None, scene_dialogue = None\<rparr>"

definition sample_dashboard :: "string \<Rightarrow> unit dashboard" where
  "sample_dashboard name =
     \<lparr>dash_app = sample_app, dash_world = sample_world, isCreateModalOpen = True,
      isDeleteModalOpen = False, selectedProject = None, dropdownOpen = None,
      createForm = \<lparr>create_name = name, create_description = Some [],
                     create_scriptContent = Some []\<rparr>,
      createErrors = no_errors\<rparr>"

definition sample_editor :: "unit editor" where
  "sample_editor =
     \<lparr>ed_app = sample_app, ed_world = sample_world,
      scriptContent = ''INT. ROOM - DAY'', storyboard = [sample_scene 1],
      isConverting = False, isExportModalOpen = False\<rparr>"

text \<open>
  The container after the editor has opened the third project: the committed state that
  a closure built for \<open>sample_app\<close> meets when it runs late.
\<close>

definition sample_app_elsewhere :: "unit appState" where
  "sample_app_elsewhere = sample_app\<lparr>currentProject := Some (sample_project ''p3'' ''Three'')\<rparr>"

definition sample_delete_dashboard :: "unit dashboard" where
  "sample_delete_dashboard =
     (sample_dashboard [])\<lparr>isCreateModalOpen := False, isDeleteModalOpen := True,
        selectedProject := Some (sample_project ''p2'' ''Two'')\<rparr>"

section \<open>Properties of the state container\<close>

lemma truthy_string_simps:
  "truthy_string None = None"
  "truthy_string (Some []) = None"
  "m \<noteq> [] \<Longrightarrow> truthy_string (Some m) = Some m"
  by (simp_all add: truthy_string_def)

lemma apply_call_not_both: "\<not> both_set (apply_call c s)"
  by (cases c) (simp_all add: both_set_def setError_def setSuccess_def clearMessages_def)

lemma apply_calls_snoc: "apply_calls (cs @ [c]) s = apply_call c (apply_calls cs s)"
  by (simp add: apply_calls_def)

lemma apply_calls_not_both: "cs \<noteq> [] \<Longrightarrow> \<not> both_set (apply_calls cs s)"
proof (induction cs rule: rev_induct)
  case Nil
  then show ?case by simp
next
  case (snoc c cs)
  show ?case
    unfolding apply_calls_snoc by (rule apply_call_not_both)
qed

text \<open>
  Claim C2, as the code has it. \<open>setError\<close> with a non-null error stores the error and
  clears the success message. \<open>setSuccess\<close> with a non-null message clears the error,
  and stores the message when it is not the empty string (\<open>message || undefined\<close> turns
  the empty string into \<open>undefined\<close>). After any non-empty sequence of \<open>setError\<close>,
  \<open>setSuccess\<close> and \<open>clearMessages\<close> calls, from any state, error and success are not
  both set; a state in which they are not both set (as the provider's initial state)
  stays so under any sequence and under \<open>setLoading\<close>; and the last call wins.
\<close>

theorem setError_setSuccess_exclusive:
  fixes s :: "'d appState"
  shows "uiState (setError (Some e) s) = (uiState s)\<lparr>ui_error := Some e, ui_success := None\<rparr>
    \<and> (m \<noteq> [] \<longrightarrow>
          uiState (setSuccess (Some m) s) = (uiState s)\<lparr>ui_success := Some m, ui_error := None\<rparr>)
    \<and> ui_error (uiState (setSuccess (Some m) s)) = None
    \<and> (cs \<noteq> [] \<longrightarrow> \<not> both_set (apply_calls cs s))
    \<and> (\<not> both_set s \<longrightarrow> \<not> both_set (apply_calls cs s) \<and> \<not> both_set (setLoading b s))
    \<and> ui_error (uiState (apply_calls (cs @ [SetError (Some e)]) s)) = Some e
    \<and> ui_success (uiState (apply_calls (cs @ [SetError (Some e)]) s)) = None
    \<and> (m \<noteq> [] \<longrightarrow> ui_success (uiState (apply_calls (cs @ [SetSuccess (Some m)]) s)) = Some m)
    \<and> ui_error (uiState (apply_calls (cs @ [SetSuccess (Some m)]) s)) = None
    \<and> ui_error (initial_uiState :: 'd uiState) = None
    \<and> ui_success (initial_uiState :: 'd uiState) = None"
proof -
  have keep: "\<not> both_set (apply_calls cs s)" if "\<not> both_set s"
  proof (cases "cs = []")
    case True
    then show ?thesis using that by (simp add: apply_calls_def)
  next
    case False
    then show ?thesis by (rule apply_calls_not_both)
  qed
  have load: "both_set (setLoading b s) = both_set s"
    by (simp add: both_set_def setLoading_def)
  show ?thesis
    using keep load
    by (simp add: apply_calls_snoc apply_calls_not_both setError_def setSuccess_def
        truthy_string_simps initial_uiState_def)
qed

theorem setError_setSuccess_exclusive_witness:
  "''Saved'' \<noteq> [] \<and> [SetSuccess (Some ''Saved'')] \<noteq> [] \<and> \<not> both_set sample_app
   \<and> ui_error (uiState (setError (Some sample_error) sample_app)) = Some sample_error
   \<and> ui_success (uiState (setSuccess (Some ''Saved'') sample_app)) = Some ''Saved''
   \<and> \<not> both_set (apply_calls [SetSuccess (Some ''Saved'')] sample_app)
   \<and> ui_error (uiState (apply_calls
         [SetSuccess (Some ''Saved''), SetError (Some sample_error)] sample_app))
       = Some sample_error"
  using setError_setSuccess_exclusive [of sample_error sample_app "''Saved''"
      "[SetSuccess (Some ''Saved'')]" True]
  by (simp add: both_set_def sample_app_def initial_uiState_def)

text \<open>
  Claim C2 as stated fails for the empty message: \<open>setSuccess('')\<close> has a non-null
  argument and leaves no success message set.
\<close>

theorem setSuccess_empty_counterexample:
  "ui_success (uiState (setSuccess (Some []) sample_app)) \<noteq> Some []"
  by (simp add: setSuccess_def truthy_string_def)

lemma updateProject_projects:
  "projects (updateProject captured p s) =
     map (\<lambda>q. if project_id q = project_id p then p else q) (projects s)"
  by (simp add: updateProject_def Let_def setCurrentProject_def)

lemma updateProject_current:
  "currentProject (updateProject captured p s) =
     (if current_id_is captured (project_id p) then Some p else currentProject s)"
  by (simp add: updateProject_def Let_def setCurrentProject_def)

lemma updateProject_frame:
  "uiState (updateProject captured p s) = uiState s
   \<and> cacheEnabled (updateProject captured p s) = cacheEnabled s
   \<and> theme (updateProject captured p s) = theme s
   \<and> uploadProgress (updateProject captured p s) = uploadProgress s"
  by (simp add: updateProject_def Let_def setCurrentProject_def)

text \<open>
  What \<open>updateProject(p)\<close> does to the list does not depend on the closure: the length
  is kept and, at every position, the element is replaced by \<open>p\<close> exactly when its id
  is \<open>p.id\<close>; the message slots and the preferences are untouched.
\<close>

lemma updateProject_list_replaced:
  "length (projects (updateProject captured p s)) = length (projects s)
   \<and> (\<forall>i < length (projects s).
         projects (updateProject captured p s) ! i =
           (if project_id (projects s ! i) = project_id p then p else projects s ! i))
   \<and> uiState (updateProject captured p s) = uiState s
   \<and> cacheEnabled (updateProject captured p s) = cacheEnabled s
   \<and> theme (updateProject captured p s) = theme s
   \<and> uploadProgress (updateProject captured p s) = uploadProgress s"
  by (simp add: updateProject_projects updateProject_frame)

text \<open>
  Called from the current render (the closure holds the committed active project), the
  active project becomes \<open>p\<close> when its id is \<open>p.id\<close> and is unchanged when its id
  differs or when there is none.
\<close>

lemma updateProject_fresh_closure:
  "(\<forall>c. currentProject s = Some c \<and> project_id c = project_id p
         \<longrightarrow> currentProject (updateProject (currentProject s) p s) = Some p)
   \<and> (\<forall>c. currentProject s = Some c \<and> project_id c \<noteq> project_id p
         \<longrightarrow> currentProject (updateProject (currentProject s) p s) = Some c)
   \<and> (currentProject s = None
         \<longrightarrow> currentProject (updateProject (currentProject s) p s) = None)"
  by (simp add: updateProject_current current_id_is_def)

text \<open>
  Claim C4, the code at a late call. The closure was built while the second project was
  active (\<open>sample_app\<close>); when it runs, the third project is the active one
  (\<open>sample_app_elsewhere\<close>). \<open>updateProject\<close> of a new version of the second project
  replaces the list element, which is the claim, and makes that version the active
  project, although the active project's id differs from \<open>p.id\<close>.
\<close>

theorem updateProject_stale_closure:
  "currentProject sample_app = Some (sample_project ''p2'' ''Two'')
   \<and> currentProject sample_app_elsewhere = Some (sample_project ''p3'' ''Three'')
   \<and> project_id (sample_project ''p3'' ''Three'') \<noteq> project_id (sample_project ''p2'' ''New'')
   \<and> projects (updateProject (currentProject sample_app) (sample_project ''p2'' ''New'')
         sample_app_elsewhere)
       = [sample_project ''p1'' ''One'', sample_project ''p2'' ''New'',
          sample_project ''p3'' ''Three'']
   \<and> currentProject (updateProject (currentProject sample_app) (sample_project ''p2'' ''New'')
         sample_app_elsewhere)
       = Some (sample_project ''p2'' ''New'')"
  by (simp add: updateProject_projects updateProject_current current_id_is_def
      sample_app_elsewhere_def sample_app_def sample_project_def)

lemma removeProject_projects:
  "projects (removeProject captured x s) = filter (\<lambda>q. project_id q \<noteq> x) (projects s)"
  by (simp add: removeProject_def Let_def setCurrentProject_def)

lemma removeProject_current:
  "currentProject (removeProject captured x s) =
     (if current_id_is captured x then None else currentProject s)"
  by (simp add: removeProject_def Let_def setCurrentProject_def)

lemma removeProject_frame:
  "uiState (removeProject captured x s) = uiState s
   \<and> cacheEnabled (removeProject captured x s) = cacheEnabled s
   \<and> theme (removeProject captured x s) = theme s
   \<and> uploadProgress (removeProject captured x s) = uploadProgress s"
  by (simp add: removeProject_def Let_def setCurrentProject_def)

text \<open>
  What \<open>removeProject(id)\<close> does to the list does not depend on the closure: the
  elements whose id is not \<open>id\<close> stay, in their order and with their multiplicity (the
  result is the list filtered, a subsequence of the old list, and holds no element with
  that id); the message slots and the preferences are untouched.
\<close>

lemma removeProject_list_filtered:
  "projects (removeProject captured x s) = filter (\<lambda>q. project_id q \<noteq> x) (projects s)
   \<and> subseq (projects (removeProject captured x s)) (projects s)
   \<and> (\<forall>q \<in> set (projects (removeProject captured x s)). project_id q \<noteq> x)
   \<and> (\<forall>q. project_id q \<noteq> x
         \<longrightarrow> count_list (projects (removeProject captured x s)) q = count_list (projects s) q)
   \<and> uiState (removeProject captured x s) = uiState s
   \<and> cacheEnabled (removeProject captured x s) = cacheEnabled s
   \<and> theme (removeProject captured x s) = theme s
   \<and> uploadProgress (removeProject captured x s) = uploadProgress s"
proof -
  have count: "project_id q \<noteq> x \<Longrightarrow>
      count_list (filter (\<lambda>q. project_id q \<noteq> x) ps) q = count_list ps q" for q ps
    by (induction ps) auto
  show ?thesis
    by (simp add: removeProject_projects removeProject_frame count)
qed

text \<open>
  Called from the current render, the active project becomes \<open>null\<close> when its id is
  \<open>id\<close> and is unchanged otherwise.
\<close>

lemma removeProject_fresh_closure:
  "(\<forall>c. currentProject s = Some c \<and> project_id c = x
         \<longrightarrow> currentProject (removeProject (currentProject s) x s) = None)
   \<and> (\<forall>c. currentProject s = Some c \<and> project_id c \<noteq> x
         \<longrightarrow> currentProject (removeProject (currentProject s) x s) = Some c)
   \<and> (currentProject s = None
         \<longrightarrow> currentProject (removeProject (currentProject s) x s) = None)"
  by (simp add: removeProject_current current_id_is_def)

text \<open>
  Claim C5, the code at a late call, both ways. A closure built while the second
  project was active, run when the third is active, removes the second project from the
  list and nulls the active project, although its id is not the removed one. A closure
  built while the third project was active, run when the second is active, removes the
  second project from the list and leaves it as the active project.
\<close>

theorem removeProject_stale_closure:
  "currentProject sample_app_elsewhere = Some (sample_project ''p3'' ''Three'')
   \<and> project_id (sample_project ''p3'' ''Three'') \<noteq> ''p2''
   \<and> projects (removeProject (currentProject sample_app) ''p2'' sample_app_elsewhere)
       = [sample_project ''p1'' ''One'', sample_project ''p3'' ''Three'']
   \<and> currentProject (removeProject (currentProject sample_app) ''p2'' sample_app_elsewhere)
       = None
   \<and> currentProject sample_app = Some (sample_project ''p2'' ''Two'')
   \<and> project_id (sample_project ''p2'' ''Two'') = ''p2''
   \<and> currentProject (removeProject (currentProject sample_app_elsewhere) ''p2'' sample_app)
       = Some (sample_project ''p2'' ''Two'')"
  by (simp add: removeProject_projects removeProject_current current_id_is_def
      sample_app_elsewhere_def sample_app_def sample_project_def)

text \<open>
  When no project of the list has the id of \<open>p\<close>, \<open>updateProject(p)\<close> leaves the
  projects list as it is, whatever the closure holds; called from the current render
  with an active project, if any, of another id, it leaves the whole container state
  unchanged.
\<close>

lemma updateProject_unknown_id_fresh_closure:
  "(project_id p \<notin> set (map project_id (projects s))
      \<longrightarrow> projects (updateProject captured p s) = projects s)
   \<and> (project_id p \<notin> set (map project_id (projects s))
        \<and> (\<forall>c. currentProject s = Some c \<longrightarrow> project_id c \<noteq> project_id p)
      \<longrightarrow> updateProject (currentProject s) p s = s)"
proof -
  have same: "map (\<lambda>q. if project_id q = project_id p then p else q) (projects s) = projects s"
    if "project_id p \<notin> set (map project_id (projects s))"
    using that by (intro map_idI) (auto simp: image_iff)
  have cur: "\<not> current_id_is (currentProject s) (project_id p)"
    if "\<forall>c. currentProject s = Some c \<longrightarrow> project_id c \<noteq> project_id p"
    using that by (cases "currentProject s") (simp_all add: current_id_is_def)
  have list: "projects (updateProject captured p s) = projects s"
    if "project_id p \<notin> set (map project_id (projects s))"
    using same [OF that] by (simp add: updateProject_projects)
  have whole: "updateProject (currentProject s) p s = s"
    if "project_id p \<notin> set (map project_id (projects s))"
      and "\<forall>c. currentProject s = Some c \<longrightarrow> project_id c \<noteq> project_id p"
    using same [OF that(1)] cur [OF that(2)] by (simp add: updateProject_def Let_def)
  show ?thesis
    using list whole by blast
qed

text \<open>
  Claim C10, the code at a late call. The list holds no project with id \<open>p9\<close> and the
  active project is the second one; the closure was built while a project with id
  \<open>p9\<close> (one that is not in the loaded list) was active. \<open>updateProject\<close> of a new
  version of that project leaves the list as it is and replaces the active project: the
  container state is not unchanged.
\<close>

theorem updateProject_unknown_id_stale_closure:
  "project_id (sample_project ''p9'' ''New'') \<notin> set (map project_id (projects sample_app))
   \<and> currentProject sample_app = Some (sample_project ''p2'' ''Two'')
   \<and> project_id (sample_project ''p2'' ''Two'') \<noteq> project_id (sample_project ''p9'' ''New'')
   \<and> projects (updateProject (Some (sample_project ''p9'' ''Nine''))
         (sample_project ''p9'' ''New'') sample_app) = projects sample_app
   \<and> currentProject (updateProject (Some (sample_project ''p9'' ''Nine''))
         (sample_project ''p9'' ''New'') sample_app) = Some (sample_project ''p9'' ''New'')
   \<and> updateProject (Some (sample_project ''p9'' ''Nine''))
         (sample_project ''p9'' ''New'') sample_app \<noteq> sample_app"
proof -
  have cur: "currentProject (updateProject (Some (sample_project ''p9'' ''Nine''))
         (sample_project ''p9'' ''New'') sample_app) = Some (sample_project ''p9'' ''New'')"
    by (simp add: updateProject_current current_id_is_def sample_project_def)
  have old: "currentProject sample_app = Some (sample_project ''p2'' ''Two'')"
    by (simp add: sample_app_def)
  have differ: "Some (sample_project ''p9'' ''New'') \<noteq> Some (sample_project ''p2'' ''Two'')"
    by (simp add: sample_project_def)
  have changed: "updateProject (Some (sample_project ''p9'' ''Nine''))
         (sample_project ''p9'' ''New'') sample_app \<noteq> sample_app"
    using cur old differ by metis
  show ?thesis
    using cur old changed
    by (simp add: updateProject_projects sample_app_def sample_project_def)
qed

section \<open>Properties of storage\<close>

lemma getItem_removeItem_same: "getItem k (removeItem k st) = None"
  by (induction st) (auto simp: getItem_def removeItem_def)

lemma fold_removeItem:
  "fold (\<lambda>key st. if P key then removeItem key st else st) ks st
     = filter (\<lambda>entry. \<not> (P (fst entry) \<and> fst entry \<in> set ks)) st"
proof (induction ks arbitrary: st)
  case Nil
  then show ?case by simp
next
  case (Cons k ks)
  show ?case
    by (cases "P k") (auto simp: Cons.IH removeItem_def intro: filter_cong)
qed

lemma clearCache_localStorage:
  "localStorage (clearCache w)
     = filter (\<lambda>entry. \<not> prefix ''cache_'' (fst entry)) (localStorage w)"
  unfolding clearCache_def storage_keys_def
  by (auto simp: fold_removeItem intro: filter_cong)

lemma map_of_filter_fst:
  "map_of (filter (\<lambda>entry. Q (fst entry)) st) k = (if Q k then map_of st k else None)"
  by (induction st) auto

text \<open>
  Claim C9. After \<open>clearCache\<close>, storage holds the entries whose key does not start with
  \<open>cache_\<close>, in their order: a key with the prefix reads as absent, every other key
  reads as before, among them the credential token and the theme preference. The
  window's location and the request trace are untouched.
\<close>

theorem clearCache_removes_cache_keys_only:
  "localStorage (clearCache w)
     = filter (\<lambda>entry. \<not> prefix ''cache_'' (fst entry)) (localStorage w)
   \<and> (prefix ''cache_'' key \<longrightarrow> getItem key (localStorage (clearCache w)) = None)
   \<and> (\<not> prefix ''cache_'' key
        \<longrightarrow> getItem key (localStorage (clearCache w)) = getItem key (localStorage w))
   \<and> getToken (clearCache w) = getToken w
   \<and> getItem ''theme'' (localStorage (clearCache w)) = getItem ''theme'' (localStorage w)
   \<and> location_href (clearCache w) = location_href w
   \<and> requests (clearCache w) = requests w"
proof -
  have get: "getItem k (localStorage (clearCache w))
      = (if prefix ''cache_'' k then None else getItem k (localStorage w))" for k
    using map_of_filter_fst [of "\<lambda>k. \<not> prefix ''cache_'' k" "localStorage w" k]
    by (simp add: clearCache_localStorage getItem_def)
  have frame: "location_href (clearCache w) = location_href w \<and> requests (clearCache w) = requests w"
    by (simp add: clearCache_def)
  have rest: "(prefix ''cache_'' key \<longrightarrow> getItem key (localStorage (clearCache w)) = None)
      \<and> (\<not> prefix ''cache_'' key
           \<longrightarrow> getItem key (localStorage (clearCache w)) = getItem key (localStorage w))
      \<and> getToken (clearCache w) = getToken w
      \<and> getItem ''theme'' (localStorage (clearCache w)) = getItem ''theme'' (localStorage w)
      \<and> location_href (clearCache w) = location_href w
      \<and> requests (clearCache w) = requests w"
    by (simp add: get frame getToken_def)
  show ?thesis
    by (rule conjI [OF clearCache_localStorage rest])
qed

theorem clearCache_removes_cache_keys_only_witness:
  "prefix ''cache_'' ''cache_p1'' \<and> \<not> prefix ''cache_'' ''auth_token''
   \<and> getItem ''cache_p1'' (localStorage sample_world) = Some ''x''
   \<and> getItem ''cache_p1'' (localStorage (clearCache sample_world)) = None
   \<and> getItem ''auth_token'' (localStorage (clearCache sample_world)) = Some ''tok''
   \<and> localStorage (clearCache sample_world) = [(''auth_token'', ''tok''), (''theme'', ''dark'')]"
  using clearCache_removes_cache_keys_only [of sample_world "''cache_p1''"]
    clearCache_removes_cache_keys_only [of sample_world "''auth_token''"]
  by (simp add: sample_world_def getItem_def)

section \<open>Properties of the resource client\<close>

lemma or_default_failure_message: "or_default message fallback = failure_message message fallback"
  by (cases message) (simp_all add: or_default_def failure_message_def truthy_string_def)

lemma unwrap_unsuccessful:
  "\<not> resp_success body \<Longrightarrow>
     unwrap fallback body = Inl (Error (failure_message (resp_message body) fallback))"
  by (simp add: unwrap_def or_default_failure_message)

lemma check_success_unsuccessful:
  "\<not> resp_success body \<Longrightarrow>
     check_success fallback body = Inl (Error (failure_message (resp_message body) fallback))"
  by (simp add: check_success_def or_default_failure_message)

lemma api_send_Resolved:
  "api_send m url (Resolved body) w =
     (Resolved body,
      w\<lparr>requests := requests w
           @ [request_interceptor w
                \<lparr>req_method = m, req_url = url, req_authorization = None\<rparr>]\<rparr>)"
  by (simp add: api_send_def response_interceptor_def)

lemma await_Resolved: "await (Resolved x, w) rest = rest x w"
  by (simp add: await_def)

lemma await_Rejected: "await (Rejected e, w) rest = (Inl e, w)"
  by (simp add: await_def)

lemma fst_await_send_unwrap:
  "\<not> resp_success body \<Longrightarrow>
     fst (await (api_send m url (Resolved body) w)
            (\<lambda>response w1. (unwrap fallback response, w1)))
       = Inl (Error (failure_message (resp_message body) fallback))"
  by (simp add: api_send_Resolved await_Resolved unwrap_unsuccessful)

lemma fst_await_send_check:
  "\<not> resp_success body \<Longrightarrow>
     fst (await (api_send m url (Resolved body) w)
            (\<lambda>response w1. (check_success fallback response, w1)))
       = Inl (Error (failure_message (resp_message body) fallback))"
  by (simp add: api_send_Resolved await_Resolved check_success_unsuccessful)

lemma login_unsuccessful:
  "\<not> resp_success body \<Longrightarrow>
     api_login (Resolved body) w =
       (Inl (Error (failure_message (resp_message body) ''Login failed'')),
        snd (api_send POST ''/auth/login'' (Resolved body) w))"
  by (simp add: api_login_def api_send_Resolved await_Resolved unwrap_unsuccessful)

lemma register_unsuccessful:
  "\<not> resp_success body \<Longrightarrow>
     api_register (Resolved body) w =
       (Inl (Error (failure_message (resp_message body) ''Registration failed'')),
        snd (api_send POST ''/auth/register'' (Resolved body) w))"
  by (simp add: api_register_def api_send_Resolved await_Resolved unwrap_unsuccessful)

lemma localStorage_api_send_Resolved:
  "localStorage (snd (api_send m url (Resolved body) w)) = localStorage w"
  by (simp add: api_send_Resolved)

text \<open>
  Claim C1, as the code has it. Thirteen operations inspect the envelope: \<open>login\<close>,
  \<open>register\<close>, \<open>getProfile\<close>, \<open>getProject\<close>, \<open>createProject\<close>, \<open>updateProject\<close>,
  \<open>deleteProject\<close>, \<open>convertScript\<close>, \<open>getStoryboard\<close>, \<open>updateStoryboard\<close>,
  \<open>uploadFile\<close>, \<open>exportProject\<close> and \<open>clearCache\<close>. When the call resolves with an
  envelope whose \<open>success\<close> is false, each of them fails with a generic error whose
  message is the envelope's message when that is present and not empty, and the
  operation's own default message otherwise; \<open>login\<close> and \<open>register\<close> then store no
  token.
\<close>

theorem unsuccessful_envelope_fails:
  fixes a :: "authResponse apiResponse" and b :: "'a apiResponse"
  assumes "\<not> resp_success a" and "\<not> resp_success b"
  shows "fst (api_login (Resolved a) w)
           = Inl (Error (failure_message (resp_message a) ''Login failed''))
    \<and> localStorage (snd (api_login (Resolved a) w)) = localStorage w
    \<and> fst (api_register (Resolved a) w)
           = Inl (Error (failure_message (resp_message a) ''Registration failed''))
    \<and> localStorage (snd (api_register (Resolved a) w)) = localStorage w
    \<and> fst (api_getProfile (Resolved b) w)
           = Inl (Error (failure_message (resp_message b) ''Failed to get profile''))
    \<and> fst (api_getProject ident (Resolved b) w)
           = Inl (Error (failure_message (resp_message b) ''Failed to get project''))
    \<and> fst (api_createProject (Resolved b) w)
           = Inl (Error (failure_message (resp_message b) ''Failed to create project''))
    \<and> fst (api_updateProject ident (Resolved b) w)
           = Inl (Error (failure_message (resp_message b) ''Failed to update project''))
    \<and> fst (api_deleteProject ident (Resolved b) w)
           = Inl (Error (failure_message (resp_message b) ''Failed to delete project''))
    \<and> fst (api_convertScript ident (Resolved b) w)
           = Inl (Error (failure_message (resp_message b) ''Failed to convert script''))
    \<and> fst (api_getStoryboard ident (Resolved b) w)
           = Inl (Error (failure_message (resp_message b) ''Failed to get storyboard''))
    \<and> fst (api_updateStoryboard ident (Resolved b) w)
           = Inl (Error (failure_message (resp_message b) ''Failed to update storyboard''))
    \<and> fst (api_uploadFile (Resolved b) w)
           = Inl (Error (failure_message (resp_message b) ''Failed to upload file''))
    \<and> fst (api_exportProject ident (Resolved b) w)
           = Inl (Error (failure_message (resp_message b) ''Failed to export project''))
    \<and> fst (api_clearCache cacheId (Resolved b) w)
           = Inl (Error (failure_message (resp_message b) ''Failed to clear cache''))"
proof -
  note auth = login_unsuccessful [OF assms(1)] register_unsuccessful [OF assms(1)]
  note plain = fst_await_send_unwrap [OF assms(2)] fst_await_send_check [OF assms(2)]
  have "fst (api_login (Resolved a) w)
           = Inl (Error (failure_message (resp_message a) ''Login failed''))"
    and "localStorage (snd (api_login (Resolved a) w)) = localStorage w"
    and "fst (api_register (Resolved a) w)
           = Inl (Error (failure_message (resp_message a) ''Registration failed''))"
    and "localStorage (snd (api_register (Resolved a) w)) = localStorage w"
    by (simp_all add: auth localStorage_api_send_Resolved)
  moreover have "fst (api_getProfile (Resolved b) w)
           = Inl (Error (failure_message (resp_message b) ''Failed to get profile''))"
    and "fst (api_getProject ident (Resolved b) w)
           = Inl (Error (failure_message (resp_message b) ''Failed to get project''))"
    and "fst (api_createProject (Resolved b) w)
           = Inl (Error (failure_message (resp_message b) ''Failed to create project''))"
    and "fst (api_updateProject ident (Resolved b) w)
           = Inl (Error (failure_message (resp_message b) ''Failed to update project''))"
    and "fst (api_deleteProject ident (Resolved b) w)
           = Inl (Error (failure_message (resp_message b) ''Failed to delete project''))"
    by (simp_all only: api_getProfile_def api_getProject_def api_createProject_def
        api_updateProject_def api_deleteProject_def plain)
  moreover have "fst (api_convertScript ident (Resolved b) w)
           = Inl (Error (failure_message (resp_message b) ''Failed to convert script''))"
    and "fst (api_getStoryboard ident (Resolved b) w)
           = Inl (Error (failure_message (resp_message b) ''Failed to get storyboard''))"
    and "fst (api_updateStoryboard ident (Resolved b) w)
           = Inl (Error (failure_message (resp_message b) ''Failed to update storyboard''))"
    and "fst (api_uploadFile (Resolved b) w)
           = Inl (Error (failure_message (resp_message b) ''Failed to upload file''))"
    and "fst (api_exportProject ident (Resolved b) w)
           = Inl (Error (failure_message (resp_message b) ''Failed to export project''))"
    and "fst (api_clearCache cacheId (Resolved b) w)
           = Inl (Error (failure_message (resp_message b) ''Failed to clear cache''))"
    by (simp_all only: api_convertScript_def api_getStoryboard_def api_updateStoryboard_def
        api_uploadFile_def api_exportProject_def api_clearCache_def Let_def plain)
  ultimately show ?thesis
    by (intro conjI)
qed

theorem unsuccessful_envelope_fails_witness:
  "\<not> resp_success \<lparr>resp_success = False, resp_data = None :: authResponse option,
        resp_message = Some ''Invalid credentials'', resp_error = None\<rparr>
   \<and> \<not> resp_success \<lparr>resp_success = False, resp_data = None :: project option,
        resp_message = None, resp_error = None\<rparr>
   \<and> fst (api_login (Resolved \<lparr>resp_success = False, resp_data = None,
        resp_message = Some ''Invalid credentials'', resp_error = None\<rparr>) sample_world)
       = Inl (Error ''Invalid credentials'')
   \<and> fst (api_getProject ''p1'' (Resolved \<lparr>resp_success = False,
        resp_data = None :: project option, resp_message = None, resp_error = None\<rparr>)
        sample_world)
       = Inl (Error ''Failed to get project'')"
  using unsuccessful_envelope_fails [of
      "\<lparr>resp_success = False, resp_data = None,
        resp_message = Some ''Invalid credentials'', resp_error = None\<rparr>"
      "\<lparr>resp_success = False, resp_data = None :: project option,
        resp_message = None, resp_error = None\<rparr>" sample_world "''p1''"]
  by (simp add: failure_message_def)

text \<open>
  Claim C1 as stated fails twice. \<open>getProjects\<close> returns an envelope whose \<open>success\<close>
  is false to its caller as a value. And an envelope whose message is present but
  empty makes \<open>login\<close> fail with the default message, not with the envelope's.
\<close>

theorem unsuccessful_envelope_counterexample:
  "fst (api_getProjects 1 10
          (Resolved \<lparr>pres_success = False, pres_data = [] :: project list,
             pres_pagination = \<lparr>pag_page = 1, pag_limit = 10, pag_total = 0,
                                 pag_totalPages = 0\<rparr>\<rparr>) sample_world)
     = Inr \<lparr>pres_success = False, pres_data = [],
            pres_pagination = \<lparr>pag_page = 1, pag_limit = 10, pag_total = 0,
                                pag_totalPages = 0\<rparr>\<rparr>
   \<and> fst (api_login (Resolved \<lparr>resp_success = False, resp_data = None,
             resp_message = Some [], resp_error = None\<rparr>) sample_world)
     = Inl (Error ''Login failed'')"
  by (simp add: api_getProjects_def api_login_def api_send_Resolved await_Resolved
      unwrap_def or_default_def truthy_string_def)

lemma getToken_clearToken: "getToken (clearToken w) = None"
  by (simp add: getToken_def clearToken_def getItem_removeItem_same)

lemma api_send_unauthorized:
  assumes "response_status e = Some 401"
  shows "api_send m url (Rejected e) w =
     (Rejected e,
      (clearToken (w\<lparr>requests := requests w
           @ [request_interceptor w
                \<lparr>req_method = m, req_url = url, req_authorization = None\<rparr>]\<rparr>))
        \<lparr>location_href := ''/login''\<rparr>)"
  using assms by (simp add: api_send_def response_interceptor_def)

lemma session_terminatedI:
  "getToken w = None \<Longrightarrow> location_href w = ''/login'' \<Longrightarrow> session_terminated profile w"
  by (simp add: session_terminated_def restoreSession_def isAuthenticated_def)

lemma terminated_after_interceptor:
  "session_terminated profile ((clearToken w)\<lparr>location_href := ''/login''\<rparr>)"
proof (rule session_terminatedI)
  have "getToken ((clearToken w)\<lparr>location_href := ''/login''\<rparr>) = getToken (clearToken w)"
    by (simp add: getToken_def)
  then show "getToken ((clearToken w)\<lparr>location_href := ''/login''\<rparr>) = None"
    by (simp add: getToken_clearToken)
  show "location_href ((clearToken w)\<lparr>location_href := ''/login''\<rparr>) = ''/login''"
    by simp
qed

lemma terminated_after_send:
  assumes "response_status e = Some 401"
  shows "session_terminated profile (snd (api_send m url (Rejected e) w))"
  by (simp only: api_send_unauthorized [OF assms] snd_conv terminated_after_interceptor)

lemma snd_await_Rejected:
  assumes "fst p = Rejected e"
  shows "snd (await p rest) = snd p"
  using assms by (cases p) (simp add: await_def)

lemma fst_api_send_Rejected: "fst (api_send m url (Rejected e) w) = Rejected e"
  by (simp add: api_send_def response_interceptor_def Let_def)

lemma terminated_after_await:
  assumes "response_status e = Some 401"
  shows "session_terminated profile (snd (await (api_send m url (Rejected e) w) rest))"
  by (simp only: snd_await_Rejected [OF fst_api_send_Rejected]
      terminated_after_send [OF assms])

lemma snd_api_logout:
  "snd (api_logout remote w) = clearToken (snd (api_send POST ''/auth/logout'' remote w))"
  by (cases remote)
    (simp_all add: api_logout_def api_send_def response_interceptor_def Let_def)

lemma terminated_after_logout:
  assumes "response_status e = Some 401"
  shows "session_terminated profile (snd (api_logout (Rejected e) w))"
proof -
  have again: "session_terminated profile (clearToken v)"
    if "session_terminated profile v" for v
  proof (rule session_terminatedI)
    show "getToken (clearToken v) = None" by (rule getToken_clearToken)
    show "location_href (clearToken v) = ''/login''"
      using that by (simp add: session_terminated_def clearToken_def)
  qed
  show ?thesis
    unfolding snd_api_logout by (rule again [OF terminated_after_send [OF assms]])
qed

text \<open>
  Claim C3. Whatever operation of the resource client issued the request, when the
  remote answers with status 401 the browser is left with no credential token in
  storage and with its window at \<open>/login\<close>; and the session store, coming up in that
  browser, is not authenticated, whatever a profile fetch would return.
\<close>

theorem unauthorized_terminates_session:
  assumes "response_status e = Some 401"
  shows "session_terminated profile (snd (api_login (Rejected e) w))
    \<and> session_terminated profile (snd (api_register (Rejected e) w))
    \<and> session_terminated profile (snd (api_logout (Rejected e) w))
    \<and> session_terminated profile (snd (api_getProfile (Rejected e) w))
    \<and> session_terminated profile (snd (api_getProjects page limit (Rejected e) w))
    \<and> session_terminated profile (snd (api_getProject ident (Rejected e) w))
    \<and> session_terminated profile (snd (api_createProject (Rejected e) w))
    \<and> session_terminated profile (snd (api_updateProject ident (Rejected e) w))
    \<and> session_terminated profile (snd (api_deleteProject ident (Rejected e) w))
    \<and> session_terminated profile (snd (api_convertScript ident (Rejected e) w))
    \<and> session_terminated profile (snd (api_getStoryboard ident (Rejected e) w))
    \<and> session_terminated profile (snd (api_updateStoryboard ident (Rejected e) w))
    \<and> session_terminated profile (snd (api_uploadFile (Rejected e) w))
    \<and> session_terminated profile (snd (api_exportProject ident (Rejected e) w))
    \<and> session_terminated profile (snd (api_clearCache cacheId (Rejected e) w))
    \<and> session_terminated profile (snd (api_healthCheck (Rejected e) w))"
  unfolding api_login_def api_register_def api_getProfile_def api_getProjects_def
    api_getProject_def api_createProject_def api_updateProject_def api_deleteProject_def
    api_convertScript_def api_getStoryboard_def api_updateStoryboard_def api_uploadFile_def
    api_exportProject_def api_clearCache_def api_healthCheck_def Let_def
  by (intro conjI terminated_after_await [OF assms] terminated_after_logout [OF assms])

theorem unauthorized_terminates_session_witness:
  "response_status unauthorized = Some 401
   \<and> getToken sample_world = Some ''tok''
   \<and> getToken (snd (api_login (Rejected unauthorized) sample_world)) = None
   \<and> location_href (snd (api_login (Rejected unauthorized) sample_world)) = ''/login''
   \<and> \<not> isAuthenticated (fst (restoreSession
         (Resolved \<lparr>resp_success = True, resp_data = Some sample_user,
                    resp_message = None, resp_error = None\<rparr>)
         (snd (api_login (Rejected unauthorized) sample_world))))"
proof -
  have st: "response_status unauthorized = Some 401"
    by (simp add: unauthorized_def response_status_def)
  have tok: "getToken sample_world = Some ''tok''"
    by (simp add: getToken_def getItem_def sample_world_def)
  show ?thesis
    using st tok unauthorized_terminates_session [OF st, of
        "Resolved \<lparr>resp_success = True, resp_data = Some sample_user,
                   resp_message = None, resp_error = None\<rparr>" sample_world
        1 10 "''p1''" None, THEN conjunct1]
    by (simp add: session_terminated_def)
qed

text \<open>
  Claim C7. \<open>logout\<close> issues one request, \<open>POST /auth/logout\<close>, and leaves no
  credential token in storage, whether the remote call resolves (then \<open>logout\<close>
  returns) or rejects (then \<open>logout\<close> throws the same error on).
\<close>

theorem logout_always_clears_token:
  "getToken (snd (api_logout remote w)) = None
   \<and> map (\<lambda>r. (req_method r, req_url r)) (requests (snd (api_logout remote w)))
       = map (\<lambda>r. (req_method r, req_url r)) (requests w) @ [(POST, ''/auth/logout'')]
   \<and> (\<forall>body. remote = Resolved body \<longrightarrow> fst (api_logout remote w) = Inr ())
   \<and> (\<forall>e. remote = Rejected e \<longrightarrow> fst (api_logout remote w) = Inl e)"
proof (cases remote)
  case (Resolved body)
  have "api_logout remote w = (Inr (), clearToken (snd (api_send POST ''/auth/logout'' remote w)))"
    by (simp add: Resolved api_logout_def api_send_Resolved)
  then show ?thesis
    by (simp add: Resolved getToken_def getItem_removeItem_same api_send_Resolved
        clearToken_def request_interceptor_def split: option.split)
next
  case (Rejected e)
  have "api_logout remote w = (Inl e, clearToken (snd (api_send POST ''/auth/logout'' remote w)))"
    by (simp add: Rejected api_logout_def api_send_def response_interceptor_def Let_def)
  then show ?thesis
    by (simp add: Rejected getToken_def getItem_removeItem_same api_send_def
        response_interceptor_def Let_def clearToken_def request_interceptor_def
        split: option.split)
qed

theorem logout_always_clears_token_witness:
  "getToken sample_world = Some ''tok''
   \<and> getToken (snd (api_logout (Rejected (AxiosError None ''Network Error'') :: unit outcome)
        sample_world)) = None
   \<and> fst (api_logout (Rejected (AxiosError None ''Network Error'') :: unit outcome) sample_world)
       = Inl (AxiosError None ''Network Error'')
   \<and> getToken (snd (api_logout (Resolved ()) sample_world)) = None
   \<and> fst (api_logout (Resolved ()) sample_world) = Inr ()"
  using logout_always_clears_token
      [of "Rejected (AxiosError None ''Network Error'') :: unit outcome" sample_world]
    logout_always_clears_token [of "Resolved ()" sample_world]
  by (simp add: getToken_def getItem_def sample_world_def)

section \<open>Properties of the page flows\<close>

lemma validateCreateForm_short_name:
  assumes "length (create_name (createForm s)) < 3"
  shows "validateCreateForm s =
     (False,
      s\<lparr>createErrors := (createErrors (snd (validateCreateForm s)))\<rparr>)"
    and "err_name (createErrors (snd (validateCreateForm s))) =
      Some (if trim (create_name (createForm s)) = []
            then ''Project name is required''
            else ''Project name must be at least 3 characters'')"
  using assms
  by (simp_all add: validateCreateForm_def Let_def error_keys_def no_errors_def
      split: option.split)

lemma handleCreateProject_invalid:
  assumes "\<not> fst (validateCreateForm s)"
  shows "handleCreateProject now remote s = snd (validateCreateForm s)"
  using assms by (cases "validateCreateForm s") (simp add: handleCreateProject_def)

text \<open>
  Claim C8. When the name in the create form has fewer than three characters, the form
  does not validate, and submitting it only records the field errors: the name field
  gets its error (\<open>required\<close> for a blank name, the minimum length otherwise), no
  request is issued, and the container, the browser and the rest of the page are as
  before, whatever the remote would have answered.
\<close>

theorem short_name_rejected_locally:
  assumes "length (create_name (createForm s)) < 3"
  shows "\<not> fst (validateCreateForm s)
    \<and> err_name (createErrors (handleCreateProject now remote s)) =
        Some (if trim (create_name (createForm s)) = []
              then ''Project name is required''
              else ''Project name must be at least 3 characters'')
    \<and> requests (dash_world (handleCreateProject now remote s)) = requests (dash_world s)
    \<and> handleCreateProject now remote s =
        s\<lparr>createErrors := createErrors (handleCreateProject now remote s)\<rparr>"
proof -
  note v = validateCreateForm_short_name [OF assms]
  have invalid: "\<not> fst (validateCreateForm s)"
    using v(1) by (metis fst_conv)
  have eq: "handleCreateProject now remote s = snd (validateCreateForm s)"
    by (rule handleCreateProject_invalid [OF invalid])
  have same: "snd (validateCreateForm s)
      = s\<lparr>createErrors := createErrors (snd (validateCreateForm s))\<rparr>"
    using v(1) by (metis snd_conv)
  have req: "requests (dash_world (snd (validateCreateForm s))) = requests (dash_world s)"
    by (subst same) simp
  show ?thesis
    unfolding eq using invalid v(2) req same by simp
qed

theorem short_name_rejected_locally_witness:
  "length (create_name (createForm (sample_dashboard ''ab''))) < 3
   \<and> err_name (createErrors (handleCreateProject ''2024-01-03T00:00:00.000Z''
         (Resolved \<lparr>resp_success = True, resp_data = Some (sample_project ''p4'' ''ab''),
                    resp_message = None, resp_error = None\<rparr>) (sample_dashboard ''ab'')))
       = Some ''Project name must be at least 3 characters''
   \<and> requests (dash_world (handleCreateProject ''2024-01-03T00:00:00.000Z''
         (Resolved \<lparr>resp_success = True, resp_data = Some (sample_project ''p4'' ''ab''),
                    resp_message = None, resp_error = None\<rparr>) (sample_dashboard ''ab'')))
       = []"
proof -
  have short: "length (create_name (createForm (sample_dashboard ''ab''))) < 3"
    by (simp add: sample_dashboard_def)
  have name: "trim (create_name (createForm (sample_dashboard ''ab''))) \<noteq> []"
    by (simp add: sample_dashboard_def trim_def is_whitespace_def)
  have none: "requests (dash_world (sample_dashboard ''ab'')) = []"
    by (simp add: sample_dashboard_def sample_world_def)
  show ?thesis
    using short name none
      short_name_rejected_locally [OF short, of "''2024-01-03T00:00:00.000Z''"
        "Resolved \<lparr>resp_success = True, resp_data = Some (sample_project ''p4'' ''ab''),
                   resp_message = None, resp_error = None\<rparr>"]
    by simp
qed

lemma api_convertScript_Resolved:
  "fst (api_convertScript pid (Resolved body) w) = unwrap ''Failed to convert script'' body"
  by (simp add: api_convertScript_def api_send_Resolved await_Resolved)

lemma api_convertScript_Rejected:
  "fst (api_convertScript pid (Rejected e) w) = Inl e"
  by (simp add: api_convertScript_def api_send_def response_interceptor_def Let_def
      await_Rejected)

lemma handleConvertScript_guarded:
  assumes "currentProject (ed_app s) = Some cur" and "trim (scriptContent s) \<noteq> []"
  shows "storyboard (handleConvertScript now remote s) =
      (case fst (api_convertScript (project_id cur) remote (ed_world s)) of
         Inr response \<Rightarrow> conv_storyboard response
       | Inl error \<Rightarrow> storyboard s)"
    and "ui_error (uiState (ed_app (handleConvertScript now remote s))) =
      (case fst (api_convertScript (project_id cur) remote (ed_world s)) of
         Inr response \<Rightarrow> None
       | Inl error \<Rightarrow>
           Some \<lparr>apperr_code = ''CONVERT_ERROR'',
                 apperr_message = caught_message error ''Failed to convert script'',
                 apperr_details = None, apperr_timestamp = now\<rparr>)"
    and "isConverting (handleConvertScript now remote s) = False"
  using assms
  by (simp_all add: handleConvertScript_def Let_def setError_def setSuccess_def
      split: prod.split sum.split)

lemma handleConvertScript_unguarded:
  assumes "currentProject (ed_app s) = None \<or> trim (scriptContent s) = []"
  shows "handleConvertScript now remote s =
      s\<lparr>ed_app := setError (Some \<lparr>apperr_code = ''CONVERT_ERROR'',
              apperr_message = ''Please enter a script before converting'',
              apperr_details = None, apperr_timestamp = now\<rparr>) (ed_app s)\<rparr>"
  using assms by (auto simp: handleConvertScript_def)

text \<open>
  Claim C6. In the convert flow (a current project and a script that is not blank):
  when the call resolves with a successful envelope that carries a response, the
  displayed storyboard becomes the returned scene list and no error is shown; when the
  envelope is unsuccessful or carries no response, and when the call is rejected, the
  displayed storyboard is exactly the previous one and a \<open>CONVERT_ERROR\<close> with the
  failure's message is recorded. The flow always ends with \<open>isConverting\<close> false. Without
  a current project or with a blank script no call is made, and there too the storyboard
  is kept and an error recorded.
\<close>

theorem convert_replaces_or_preserves:
  assumes "currentProject (ed_app s) = Some cur" and "trim (scriptContent s) \<noteq> []"
  shows "(resp_success body \<and> resp_data body = Some response \<longrightarrow>
            storyboard (handleConvertScript now (Resolved body) s) = conv_storyboard response
            \<and> ui_error (uiState (ed_app (handleConvertScript now (Resolved body) s))) = None)
    \<and> (\<not> resp_success body \<or> resp_data body = None \<longrightarrow>
            storyboard (handleConvertScript now (Resolved body) s) = storyboard s
            \<and> ui_error (uiState (ed_app (handleConvertScript now (Resolved body) s))) =
                Some \<lparr>apperr_code = ''CONVERT_ERROR'',
                      apperr_message =
                        failure_message (resp_message body) ''Failed to convert script'',
                      apperr_details = None, apperr_timestamp = now\<rparr>)
    \<and> storyboard (handleConvertScript now (Rejected e) s) = storyboard s
    \<and> ui_error (uiState (ed_app (handleConvertScript now (Rejected e) s))) =
          Some \<lparr>apperr_code = ''CONVERT_ERROR'',
                apperr_message = caught_message e ''Failed to convert script'',
                apperr_details = None, apperr_timestamp = now\<rparr>
    \<and> \<not> isConverting (handleConvertScript now (Resolved body) s)
    \<and> \<not> isConverting (handleConvertScript now (Rejected e) s)
    \<and> storyboard (handleConvertScript now remote (s\<lparr>scriptContent := []\<rparr>)) = storyboard s
    \<and> ui_error (uiState (ed_app (handleConvertScript now remote (s\<lparr>scriptContent := []\<rparr>))))
          \<noteq> None
    \<and> ed_world (handleConvertScript now remote (s\<lparr>scriptContent := []\<rparr>)) = ed_world s"
proof -
  note g = handleConvertScript_guarded [OF assms]
  have ok: "storyboard (handleConvertScript now (Resolved body) s) = conv_storyboard response
      \<and> ui_error (uiState (ed_app (handleConvertScript now (Resolved body) s))) = None"
    if "resp_success body \<and> resp_data body = Some response"
    using that by (simp add: g api_convertScript_Resolved unwrap_def)
  have bad: "storyboard (handleConvertScript now (Resolved body) s) = storyboard s
      \<and> ui_error (uiState (ed_app (handleConvertScript now (Resolved body) s))) =
          Some \<lparr>apperr_code = ''CONVERT_ERROR'',
                apperr_message =
                  failure_message (resp_message body) ''Failed to convert script'',
                apperr_details = None, apperr_timestamp = now\<rparr>"
    if "\<not> resp_success body \<or> resp_data body = None"
    using that
    by (auto simp: g api_convertScript_Resolved unwrap_def or_default_failure_message
        caught_message_def)
  have rej: "storyboard (handleConvertScript now (Rejected e) s) = storyboard s
      \<and> ui_error (uiState (ed_app (handleConvertScript now (Rejected e) s))) =
          Some \<lparr>apperr_code = ''CONVERT_ERROR'',
                apperr_message = caught_message e ''Failed to convert script'',
                apperr_details = None, apperr_timestamp = now\<rparr>"
    by (simp add: g api_convertScript_Rejected)
  have blank: "trim (scriptContent (s\<lparr>scriptContent := []\<rparr>)) = []"
    by (simp add: trim_def)
  have nocall: "storyboard (handleConvertScript now remote (s\<lparr>scriptContent := []\<rparr>)) = storyboard s
      \<and> ui_error (uiState (ed_app (handleConvertScript now remote (s\<lparr>scriptContent := []\<rparr>))))
          \<noteq> None
      \<and> ed_world (handleConvertScript now remote (s\<lparr>scriptContent := []\<rparr>)) = ed_world s"
    by (simp add: handleConvertScript_unguarded [OF disjI2 [OF blank]] setError_def)
  show ?thesis
    using ok bad rej nocall g(3) by blast
qed

theorem convert_replaces_or_preserves_witness:
  "currentProject (ed_app sample_editor) = Some (sample_project ''p2'' ''Two'')
   \<and> trim (scriptContent sample_editor) \<noteq> []
   \<and> storyboard sample_editor = [sample_scene 1]
   \<and> storyboard (handleConvertScript ''2024-01-03T00:00:00.000Z''
        (Resolved \<lparr>resp_success = True,
           resp_data = Some \<lparr>conv_success = True,
                             conv_storyboard = [sample_scene 2, sample_scene 3],
                             conv_processingTime = 120\<rparr>,
           resp_message = None, resp_error = None\<rparr>) sample_editor)
       = [sample_scene 2, sample_scene 3]
   \<and> storyboard (handleConvertScript ''2024-01-03T00:00:00.000Z''
        (Rejected (AxiosError (Some 500) ''Request failed with status code 500''))
        sample_editor)
       = [sample_scene 1]
   \<and> ui_error (uiState (ed_app (handleConvertScript ''2024-01-03T00:00:00.000Z''
        (Rejected (AxiosError (Some 500) ''Request failed with status code 500''))
        sample_editor)))
       = Some \<lparr>apperr_code = ''CONVERT_ERROR'',
               apperr_message = ''Request failed with status code 500'',
               apperr_details = None, apperr_timestamp = ''2024-01-03T00:00:00.000Z''\<rparr>"
proof -
  have cur: "currentProject (ed_app sample_editor) = Some (sample_project ''p2'' ''Two'')"
    by (simp add: sample_editor_def sample_app_def)
  have script: "trim (scriptContent sample_editor) \<noteq> []"
    by (simp add: sample_editor_def trim_def is_whitespace_def)
  have old: "storyboard sample_editor = [sample_scene 1]"
    by (simp add: sample_editor_def)
  show ?thesis
    using cur script old
      convert_replaces_or_preserves [OF cur script, of
        "\<lparr>resp_success = True,
          resp_data = Some \<lparr>conv_success = True,
                            conv_storyboard = [sample_scene 2, sample_scene 3],
                            conv_processingTime = 120\<rparr>,
          resp_message = None, resp_error = None\<rparr>"
        "\<lparr>conv_success = True, conv_storyboard = [sample_scene 2, sample_scene 3],
          conv_processingTime = 120\<rparr>"
        "''2024-01-03T00:00:00.000Z''"
        "AxiosError (Some 500) ''Request failed with status code 500''"]
    by (simp add: caught_message_def)
qed

section \<open>The other branches\<close>

text \<open>
  The branches the properties above leave aside, so that both sides of each guard are
  on record: a successful envelope is unwrapped, \<open>login\<close> then stores the token,
  \<open>getProjects\<close> hands any envelope on, and a form with a valid name issues the
  request and records no field error.
\<close>

lemma successful_envelope_returns:
  assumes "resp_success body" and "resp_data body = Some d"
  shows "fst (api_getProject ident (Resolved body) w) = Inr d"
    and "fst (api_convertScript ident (Resolved body) w) = Inr d"
  using assms
  by (simp_all add: api_getProject_def api_convertScript_def api_send_Resolved
      await_Resolved unwrap_def)

lemma login_stores_token:
  assumes "resp_success body" and "resp_data body = Some d"
  shows "fst (api_login (Resolved body) w) = Inr d"
    and "getToken (snd (api_login (Resolved body) w)) = Some (auth_token d)"
proof -
  have present: "map_of (map (\<lambda>entry. if fst entry = key then (key, v) else entry) st) key
      = Some v" if "key \<in> set (map fst st)" for key v and st :: storage
    using that by (induction st) auto
  have absent: "map_of (st @ [(key, v)]) key = Some v"
    if "key \<notin> set (map fst st)" for key v and st :: storage
    using that by (induction st) auto
  have set_get: "getItem key (setItem key v st) = Some v" for key v and st :: storage
    using present [of key st v] absent [of key st v]
    by (cases "key \<in> set (map fst st)") (simp_all add: getItem_def setItem_def)
  show "fst (api_login (Resolved body) w) = Inr d"
    using assms by (simp add: api_login_def api_send_Resolved await_Resolved unwrap_def)
  show "getToken (snd (api_login (Resolved body) w)) = Some (auth_token d)"
    using assms
    by (simp add: api_login_def api_send_Resolved await_Resolved unwrap_def setToken_def
        getToken_def set_get)
qed

lemma getProjects_hands_on:
  "fst (api_getProjects page limit (Resolved body) w) = Inr body"
  by (simp add: api_getProjects_def api_send_Resolved await_Resolved)

lemma other_status_keeps_session:
  assumes "response_status e \<noteq> Some 401"
  shows "localStorage (snd (api_getProject ident (Rejected e) w)) = localStorage w"
    and "location_href (snd (api_getProject ident (Rejected e) w)) = location_href w"
  using assms
  by (simp_all add: api_getProject_def api_send_def response_interceptor_def Let_def
      await_Rejected)

lemma valid_name_issues_request:
  "map (\<lambda>r. (req_method r, req_url r))
     (requests (dash_world (handleCreateProject now
        (Resolved \<lparr>resp_success = True, resp_data = Some (sample_project ''p4'' ''abc''),
                   resp_message = None, resp_error = None\<rparr>) (sample_dashboard ''abc''))))
     = [(POST, ''/projects'')]
   \<and> createErrors (handleCreateProject now
        (Resolved \<lparr>resp_success = True, resp_data = Some (sample_project ''p4'' ''abc''),
                   resp_message = None, resp_error = None\<rparr>) (sample_dashboard ''abc''))
     = no_errors
   \<and> length (projects (dash_app (handleCreateProject now
        (Resolved \<lparr>resp_success = True, resp_data = Some (sample_project ''p4'' ''abc''),
                   resp_message = None, resp_error = None\<rparr>) (sample_dashboard ''abc''))))
     = 4"
proof -
  have valid: "validateCreateForm (sample_dashboard ''abc'' :: unit dashboard)
      = (True, sample_dashboard ''abc'')"
    by (simp add: validateCreateForm_def sample_dashboard_def trim_def is_whitespace_def
        truthy_string_def error_keys_def no_errors_def)
  show ?thesis
    unfolding handleCreateProject_def valid
    by (simp add: api_createProject_def api_send_Resolved
        await_Resolved unwrap_def Let_def sample_dashboard_def sample_world_def
        sample_app_def setLoading_def setSuccess_def setProjects_def
        request_interceptor_def truthy_string_def getToken_def getItem_def)
qed

section \<open>The late calls in the page flows\<close>

text \<open>
  The late calls of \<open>updateProject\<close> and \<open>removeProject\<close> happen in the pages' own flows.
  A save of the second project is in flight while the editor opens the third
  (\<open>setCurrentProject\<close>, as \<open>loadProject\<close> does): when the save is answered, the closure
  of the click makes the saved project the active one again. A deletion of the second
  project is in flight while the editor opens the third: when it is answered, the
  closure of the click nulls the active project.
\<close>

lemma handleSaveProject_overwrites_active:
  "currentProject (ed_app (handleSaveProject now
      (Resolved \<lparr>resp_success = True, resp_data = Some (sample_project ''p2'' ''New''),
                 resp_message = None, resp_error = None\<rparr>)
      (setCurrentProject (Some (sample_project ''p3'' ''Three''))) sample_editor))
     = Some (sample_project ''p2'' ''New'')"
proof -
  have cur: "currentProject (ed_app sample_editor) = Some (sample_project ''p2'' ''Two'')"
    by (simp add: sample_editor_def sample_app_def)
  have call: "api_updateProject ident
      (Resolved \<lparr>resp_success = True, resp_data = Some (sample_project ''p2'' ''New''),
                 resp_message = None, resp_error = None\<rparr>) w
      = (Inr (sample_project ''p2'' ''New''),
         snd (api_send PUT (''/projects/'' @ ident)
           (Resolved \<lparr>resp_success = True,
              resp_data = Some (sample_project ''p2'' ''New''),
              resp_message = None, resp_error = None\<rparr>) w))" for ident w
    by (simp add: api_updateProject_def api_send_Resolved await_Resolved unwrap_def)
  have late: "currentProject (setLoading False (setSuccess m
      (updateProject (Some (sample_project ''p2'' ''Two'')) (sample_project ''p2'' ''New'') a)))
      = Some (sample_project ''p2'' ''New'')" for m and a :: "unit appState"
    by (simp add: setLoading_def setSuccess_def updateProject_current current_id_is_def
        sample_project_def)
  show ?thesis
    by (simp add: handleSaveProject_def cur call Let_def late)
qed

lemma handleDeleteProject_nulls_active:
  "currentProject (dash_app (handleDeleteProject now
      (Resolved \<lparr>resp_success = True, resp_data = None, resp_message = None,
                 resp_error = None\<rparr>)
      (setCurrentProject (Some (sample_project ''p3'' ''Three''))) sample_delete_dashboard))
     = None"
proof -
  have sel: "selectedProject sample_delete_dashboard = Some (sample_project ''p2'' ''Two'')"
    by (simp add: sample_delete_dashboard_def)
  have cur: "currentProject (dash_app sample_delete_dashboard)
      = Some (sample_project ''p2'' ''Two'')"
    by (simp add: sample_delete_dashboard_def sample_dashboard_def sample_app_def)
  have call: "api_deleteProject ident
      (Resolved \<lparr>resp_success = True, resp_data = None :: unit option,
                 resp_message = None, resp_error = None\<rparr>) w
      = (Inr (),
         snd (api_send DELETE (''/projects/'' @ ident)
           (Resolved \<lparr>resp_success = True, resp_data = None :: unit option,
              resp_message = None, resp_error = None\<rparr>) w))" for ident w
    by (simp add: api_deleteProject_def api_send_Resolved await_Resolved check_success_def)
  have late: "currentProject (setLoading False (setSuccess m
      (removeProject (Some (sample_project ''p2'' ''Two''))
         (project_id (sample_project ''p2'' ''Two'')) a))) = None"
    for m and a :: "unit appState"
    by (simp add: setLoading_def setSuccess_def removeProject_current current_id_is_def)
  show ?thesis
    by (simp add: handleDeleteProject_def sel cur call Let_def late)
qed

end
